theory Spec2Isabelle
  imports Main "HOL-Library.AList"
begin

section \<open>Engine types the plugin builds on\<close>

text \<open>
  The plugin is glue code over Unreal Engine types. Strings (\<open>FString\<close>, \<open>FText\<close>,
  \<open>FName\<close>) are modelled as HOL strings; an object pointer that may be null is an
  \<open>option\<close>. A \<open>TMap\<close> is an association list in insertion order: \<open>Add\<close> on a key that
  is present replaces its value, \<open>Remove\<close> deletes the key, \<open>GenerateKeyArray\<close> lists the
  keys. Keys are compared with the equality of the key type.
\<close>

type_synonym FString = string
type_synonym FText = string
type_synonym ('k, 'v) TMap = "('k \<times> 'v) list"

definition TMap_Contains :: "('k, 'v) TMap \<Rightarrow> 'k \<Rightarrow> bool" where
  "TMap_Contains m k = (k \<in> set (map fst m))"

definition TMap_GenerateKeyArray :: "('k, 'v) TMap \<Rightarrow> 'k list" where
  "TMap_GenerateKeyArray m = map fst m"

definition TMap_Find :: "('k, 'v) TMap \<Rightarrow> 'k \<Rightarrow> 'v option" where
  "TMap_Find m k = map_of m k"

definition TMap_Remove :: "'k \<Rightarrow> ('k, 'v) TMap \<Rightarrow> ('k, 'v) TMap" where
  "TMap_Remove k m = AList.delete k m"

definition TMap_Add :: "'k \<Rightarrow> 'v \<Rightarrow> ('k, 'v) TMap \<Rightarrow> ('k, 'v) TMap" where
  "TMap_Add k v m = AList.update k v m"

section \<open>ArticyPluginSettings.cpp\<close>

text \<open>
  \<open>UArticyDatabase\<close> is not part of the sources at hand, so the three methods of it that
  the settings object calls are parameters: the database is a value of an arbitrary type
  \<open>'db\<close>, package names are values of an arbitrary type \<open>'k\<close>.
\<close>

record ('db, 'k) ArticyDatabaseApi =
  GetImportedPackageNames :: "'db \<Rightarrow> 'k list"
  IsPackageDefaultPackage :: "'db \<Rightarrow> 'k \<Rightarrow> bool"
  ChangePackageDefault :: "'k \<Rightarrow> bool \<Rightarrow> 'db \<Rightarrow> 'db"

record 'k UArticyPluginSettings =
  PackageLoadSettings :: "('k, bool) TMap"

definition DoesPackageSettingExist :: "'k UArticyPluginSettings \<Rightarrow> 'k \<Rightarrow> bool" where
  "DoesPackageSettingExist this packageName = TMap_Contains (PackageLoadSettings this) packageName"

text \<open>The first loop of \<open>UpdatePackageSettings\<close>: over the key array taken before the loop.\<close>

fun remove_outdated :: "'k list \<Rightarrow> 'k list \<Rightarrow> ('k, bool) TMap \<Rightarrow> ('k, bool) TMap" where
  "remove_outdated ImportedPackageNames [] m = m"
| "remove_outdated ImportedPackageNames (Name # rest) m =
     remove_outdated ImportedPackageNames rest
       (if Name \<notin> set ImportedPackageNames then TMap_Remove Name m else m)"

text \<open>The second loop: over the imported names, tested against the same key array.\<close>

fun add_missing :: "('k \<Rightarrow> bool) \<Rightarrow> 'k list \<Rightarrow> 'k list \<Rightarrow> ('k, bool) TMap \<Rightarrow> ('k, bool) TMap" where
  "add_missing isDefault CurrentNames [] m = m"
| "add_missing isDefault CurrentNames (Name # rest) m =
     add_missing isDefault CurrentNames rest
       (if Name \<notin> set CurrentNames then TMap_Add Name (isDefault Name) m else m)"

text \<open>
  The loop of \<open>ApplyPreviousSettings\<close>: the settings read are those of the class default
  object; a name without a setting only logs a warning.
\<close>

fun apply_previous :: "('db, 'k) ArticyDatabaseApi \<Rightarrow> ('k, bool) TMap \<Rightarrow> 'k list \<Rightarrow> 'db \<Rightarrow> 'db" where
  "apply_previous api defaults [] db = db"
| "apply_previous api defaults (PackageName # rest) db =
     apply_previous api defaults rest
       (case TMap_Find defaults PackageName of
          Some v \<Rightarrow> ChangePackageDefault api PackageName v db
        | None \<Rightarrow> db)"

definition ApplyPreviousSettings ::
  "('db, 'k) ArticyDatabaseApi \<Rightarrow> ('k, bool) TMap \<Rightarrow> 'db option \<Rightarrow> 'db option" where
  "ApplyPreviousSettings api defaults OriginalDatabase =
     (case OriginalDatabase of
        None \<Rightarrow> None
      | Some db \<Rightarrow> Some (apply_previous api defaults (GetImportedPackageNames api db) db))"

text \<open>
  \<open>UpdatePackageSettings\<close> on the settings object \<open>this\<close>. \<open>cdo\<close> is the load-settings map
  of the class default object when \<open>this\<close> is another instance, and \<open>None\<close> when \<open>this\<close>
  is the class default object itself. The result is the settings object and the database.
\<close>

definition UpdatePackageSettings ::
  "('db, 'k) ArticyDatabaseApi \<Rightarrow> 'db option \<Rightarrow> ('k, bool) TMap option \<Rightarrow>
   'k UArticyPluginSettings \<Rightarrow> 'k UArticyPluginSettings \<times> 'db option" where
  "UpdatePackageSettings api ArticyDatabase cdo this =
     (case ArticyDatabase of
        None \<Rightarrow> (this, None)
      | Some db \<Rightarrow>
          (let ImportedPackageNames = GetImportedPackageNames api db;
               CurrentNames = TMap_GenerateKeyArray (PackageLoadSettings this);
               removed = remove_outdated ImportedPackageNames CurrentNames (PackageLoadSettings this);
               added = add_missing (IsPackageDefaultPackage api db) CurrentNames ImportedPackageNames removed;
               this' = this\<lparr>PackageLoadSettings := added\<rparr>;
               defaults = (case cdo of None \<Rightarrow> added | Some d \<Rightarrow> d)
           in (this', ApplyPreviousSettings api defaults (Some db))))"

text \<open>A small database and settings object to run \<open>UpdatePackageSettings\<close> on.\<close>

definition example_database_api :: "((FString \<times> bool) list, FString) ArticyDatabaseApi" where
  "example_database_api =
     \<lparr>GetImportedPackageNames = map fst,
      IsPackageDefaultPackage = (\<lambda>db k. map_of db k = Some True),
      ChangePackageDefault = (\<lambda>k v db. AList.update k v db)\<rparr>"

definition example_database :: "(FString \<times> bool) list" where
  "example_database = [(''Chapter1'', True), (''Chapter2'', False)]"

definition example_settings :: "FString UArticyPluginSettings" where
  "example_settings = \<lparr>PackageLoadSettings = [(''Prologue'', False), (''Chapter2'', True)]\<rparr>"

section \<open>ArticyEditorModule.cpp: the import status\<close>

datatype EImportStatusValidity = Valid | ImportDataAssetMissing | FileMissing | ImportantAssetMissing

text \<open>
  What \<open>CheckImportStatusValidity\<close> reads from the editor: the import data asset that
  \<open>EnsureImportDataAsset\<close> hands back (possibly null), the files \<open>FindFiles\<close> lists in the
  generated source folder, and for every asset under the generated folder what
  \<open>GetAsset\<close> loads (null when the class is missing).
\<close>

record ('imp, 'obj) ImportSurroundings =
  ImportDataAsset :: "'imp option"
  SourceFolderFiles :: "FString list"
  ArticyAssets :: "'obj option list"

text \<open>The loop over the assets, leaving at the first null one.\<close>

fun assets_loop :: "'obj option list \<Rightarrow> EImportStatusValidity option" where
  "assets_loop [] = None"
| "assets_loop (Asset # rest) = (if Asset = None then Some FileMissing else assets_loop rest)"

definition CheckImportStatusValidity :: "('imp, 'obj) ImportSurroundings \<Rightarrow> EImportStatusValidity" where
  "CheckImportStatusValidity env =
     (if ImportDataAsset env = None then ImportDataAssetMissing
      else if length (SourceFolderFiles env) < 5 then FileMissing
      else (case assets_loop (ArticyAssets env) of
              Some early \<Rightarrow> early
            | None \<Rightarrow>
                if length (ArticyAssets env) < 3 then ImportantAssetMissing else Valid))"

section \<open>ArticyImportData.h: the global variables of an import\<close>

datatype EArticyType = ADT_Boolean | ADT_Integer | ADT_String | ADT_MultiLanguageString

record FArticyGVar =
  Variable :: FString
  Type :: EArticyType
  Description :: FString
  BoolValue :: bool
  IntValue :: int
  StringValue :: FString

record FArticyGVNamespace =
  Namespace :: FString
  Description :: FString
  Variables :: "FArticyGVar list"
  CppTypename :: FString

record FArticyGVInfo =
  Namespaces :: "FArticyGVNamespace list"

record FArticyProjectDef =
  Name :: FString
  DetailName :: FString
  Guid :: FString
  TechnicalName :: FString

record UArticyImportData =
  Project :: FArticyProjectDef
  GlobalVariables :: FArticyGVInfo

definition GetGlobalVars :: "UArticyImportData \<Rightarrow> FArticyGVInfo" where
  "GetGlobalVars Data = GlobalVariables Data"

section \<open>GlobalVarsGenerator.cpp\<close>

text \<open>
  \<open>CodeFileGenerator\<close> is not part of the sources at hand. What \<open>GenerateCode\<close> asks of it
  is recorded as a tree: one node per call, in call order, the calls made inside the
  content callback of \<open>Class\<close> or \<open>Method\<close> being the children of that node. \<open>Line\<close> is
  the call with the text alone (\<open>Line()\<close> is the empty text), \<open>LineWith\<close> the call that
  also passes \<open>bSemicolon\<close>, \<open>bIndent\<close> and \<open>IndentOffset\<close>; \<open>MethodDecl\<close> is the call with
  four arguments, \<open>MethodDeclWith\<close> the call that also passes the comment, \<open>bUFunction\<close>
  and the specifiers.
\<close>

datatype CodeItem =
    Line FString
  | LineWith FString bool bool int
  | Comment FString
  | VariableDecl FString FString FString FString bool FString
  | ClassDecl FString FString bool "CodeItem list"
  | MethodDecl FString FString FString "CodeItem list"
  | MethodDeclWith FString FString FString "CodeItem list" FString bool FString

record GeneratedFile =
  Path :: FString
  bHeader :: bool
  Content :: "CodeItem list"

text \<open>
  \<open>CodeGenerator::GetGlobalVarsClassname\<close>, \<open>FArticyGVar::GetCPPTypeString\<close> and
  \<open>FArticyGVar::GetCPPValueString\<close> are declared but not defined in the sources at hand:
  they are parameters.
\<close>

record CodeGeneratorApi =
  GetGlobalVarsClassname :: "UArticyImportData \<Rightarrow> bool \<Rightarrow> FString"
  GetCPPTypeString :: "FArticyGVar \<Rightarrow> FString"
  GetCPPValueString :: "FArticyGVar \<Rightarrow> FString"

definition dq :: FString where
  "dq = [CHR 0x22]"

definition category_specifier :: "FString \<Rightarrow> FString" where
  "category_specifier ns_name =
     ''VisibleAnywhere, BlueprintReadOnly, Category='' @ dq @ ns_name @ dq"

definition create_subobject_line :: "FString \<Rightarrow> FString \<Rightarrow> FString" where
  "create_subobject_line name type =
     name @ '' = CreateDefaultSubobject<'' @ type @ ''>('' @ dq @ name @ dq @ '');''"

definition variable_init_line :: "CodeGeneratorApi \<Rightarrow> FArticyGVNamespace \<Rightarrow> FArticyGVar \<Rightarrow> FString" where
  "variable_init_line api ns var =
     Variable var @ ''->Init<'' @ GetCPPTypeString api var @ ''>(this, Store, TEXT('' @ dq
       @ Namespace ns @ ''.'' @ Variable var @ dq @ ''), '' @ GetCPPValueString api var @ '');''"

definition variables_add_line :: "FString \<Rightarrow> FString" where
  "variables_add_line name = ''this->Variables.Add('' @ name @ '');''"

text \<open>The class generated for one namespace (the body of the first loop).\<close>

definition namespace_class :: "CodeGeneratorApi \<Rightarrow> FArticyGVNamespace \<Rightarrow> CodeItem" where
  "namespace_class api ns =
     ClassDecl (CppTypename ns @ '' : public UArticyBaseVariableSet'')
       (FArticyGVNamespace.Description ns) True
       ([LineWith ''public:'' False True (- 1)]
        @ map (\<lambda>var. VariableDecl (GetCPPTypeString api var @ ''*'') (Variable var) ''nullptr''
                        (FArticyGVar.Description var) True (category_specifier (Namespace ns)))
              (Variables ns)
        @ [Line []]
        @ [MethodDecl [] (CppTypename ns) []
             (map (\<lambda>var. Line (create_subobject_line (Variable var) (GetCPPTypeString api var)))
                  (Variables ns))]
        @ [Line []]
        @ [MethodDecl ''void'' ''Init'' ''UArticyGlobalVariables* const Store''
             (Comment ''initialize the variables''
              # concat (map (\<lambda>var. [Line (variable_init_line api ns var),
                                     Line (variables_add_line (Variable var))])
                            (Variables ns)))])"

definition namespace_init_line :: "FString \<Rightarrow> FString" where
  "namespace_init_line ns_name = ns_name @ ''->Init(this);''"

definition variable_sets_add_line :: "FString \<Rightarrow> FString" where
  "variable_sets_add_line ns_name = ''this->VariableSets.Add('' @ ns_name @ '');''"

text \<open>The project's class derived from \<open>UArticyGlobalVariables\<close>.\<close>

definition global_variables_class :: "FString \<Rightarrow> FArticyGVNamespace list \<Rightarrow> CodeItem" where
  "global_variables_class type nss =
     ClassDecl (type @ '' : public UArticyGlobalVariables'') ''Global Articy Variables'' True
       ([LineWith ''public:'' False True (- 1)]
        @ map (\<lambda>ns. VariableDecl (CppTypename ns @ ''*'') (Namespace ns) ''nullptr''
                       (FArticyGVNamespace.Description ns) True (category_specifier (Namespace ns)))
              nss
        @ [Line []]
        @ [MethodDecl [] type []
             ([Comment ''create the namespaces'']
              @ map (\<lambda>ns. Line (create_subobject_line (Namespace ns) (CppTypename ns))) nss
              @ [Line [], Line ''Init();''])]
        @ [Line []]
        @ [MethodDecl ''void'' ''Init'' []
             (Comment ''initialize the namespaces''
              # concat (map (\<lambda>ns. [Line (namespace_init_line (Namespace ns)),
                                    Line (variable_sets_add_line (Namespace ns))])
                            nss))]
        @ [Line []]
        @ [MethodDeclWith (''static '' @ type @ ''*'') ''GetDefault'' ''const UObject* WorldContext''
             [Line (''return static_cast<'' @ type
                    @ ''*>(UArticyGlobalVariables::GetDefault(WorldContext));'')]
             ''Get the default GlobalVariables (a copy of the asset).'' True
             (''BlueprintPure, Category='' @ dq @ ''ArticyGlobalVariables'' @ dq
              @ '', meta=(HidePin='' @ dq @ ''WorldContext'' @ dq
              @ '', DefaultToSelf='' @ dq @ ''WorldContext'' @ dq
              @ '', DisplayName='' @ dq @ ''GetArticyGV'' @ dq
              @ '', keywords='' @ dq @ ''global variables'' @ dq @ '')'')])"

definition platform_guard :: FString where
  "platform_guard =
     ''#if !((defined(PLATFORM_PS4) && PLATFORM_PS4) || (defined(PLATFORM_PS5) && PLATFORM_PS5))''"

text \<open>What the content callback of the header file emits.\<close>

definition header_content :: "CodeGeneratorApi \<Rightarrow> UArticyImportData \<Rightarrow> FString \<Rightarrow> CodeItem list" where
  "header_content api Data OutFile =
     [Line (''#include '' @ dq @ ''CoreUObject.h'' @ dq),
      Line (''#include '' @ dq @ ''ArticyGlobalVariables.h'' @ dq),
      Line (''#include '' @ dq @ OutFile @ ''.generated.h'' @ dq),
      Line platform_guard,
      Line ''#pragma warning(push)'',
      Line (''#pragma warning(disable: 4883) //<disable '' @ dq
            @ ''optimization cannot be applied due to function size'' @ dq @ '' compile error.''),
      Line ''#endif'']
     @ concat (map (\<lambda>ns. [Line [], namespace_class api ns]) (Namespaces (GetGlobalVars Data)))
     @ [Line []]
     @ [global_variables_class (GetGlobalVarsClassname api Data False) (Namespaces (GetGlobalVars Data))]
     @ [Line platform_guard,
        Line ''#pragma warning(pop)'',
        Line ''#endif'']"

text \<open>
  \<open>GenerateCode(Data, OutFile)\<close>: the new value of \<open>OutFile\<close> and the file written, if any.
  \<open>ensure(Data)\<close> reports a null pointer and yields false; the function then returns.
\<close>

definition GenerateCode ::
  "CodeGeneratorApi \<Rightarrow> UArticyImportData option \<Rightarrow> FString \<Rightarrow> FString \<times> GeneratedFile option" where
  "GenerateCode api Data OutFile =
     (case Data of
        None \<Rightarrow> (OutFile, None)
      | Some d \<Rightarrow>
          (let OutFile' = GetGlobalVarsClassname api d True
           in (OutFile',
               Some \<lparr>Path = OutFile' @ ''.h'', bHeader = True,
                     Content = header_content api d OutFile'\<rparr>)))"

text \<open>
  Reading a generated tree back: the classes among a list of items, the \<open>UPROPERTY\<close>
  variables, the methods and the plain lines of a body.
\<close>

fun class_decls :: "CodeItem list \<Rightarrow> (FString \<times> bool \<times> CodeItem list) list" where
  "class_decls [] = []"
| "class_decls (ClassDecl name comment uclass body # rest) = (name, uclass, body) # class_decls rest"
| "class_decls (other # rest) = class_decls rest"

fun uproperty_decls :: "CodeItem list \<Rightarrow> (FString \<times> FString \<times> FString) list" where
  "uproperty_decls [] = []"
| "uproperty_decls (VariableDecl type name val comment uproperty spec # rest) =
     (if uproperty then (type, name, val) # uproperty_decls rest else uproperty_decls rest)"
| "uproperty_decls (other # rest) = uproperty_decls rest"

fun plain_lines :: "CodeItem list \<Rightarrow> FString list" where
  "plain_lines [] = []"
| "plain_lines (Line text # rest) = text # plain_lines rest"
| "plain_lines (other # rest) = plain_lines rest"

fun method_decls :: "CodeItem list \<Rightarrow> (FString \<times> FString \<times> FString \<times> FString list) list" where
  "method_decls [] = []"
| "method_decls (MethodDecl ret name params body # rest) =
     (ret, name, params, plain_lines body) # method_decls rest"
| "method_decls (MethodDeclWith ret name params body comment ufunction spec # rest) =
     (ret, name, params, plain_lines body) # method_decls rest"
| "method_decls (other # rest) = method_decls rest"

section \<open>ArticyEditorModule.cpp: the module and the editor around it\<close>

text \<open>
  The module registers things with the editor and keeps a few members. Both are fields of
  one state: the members of \<open>FArticyEditorModule\<close> first, then the registries of the
  editor that the module writes to. A shared pointer that may be null is an \<open>option\<close>.
  A delegate handle is a number, \<open>0\<close> being the handle that is bound to nothing; a
  multicast delegate is the list of its bindings, each with its handle. A bound function
  is written by its name.
\<close>

type_synonym FName = string
type_synonym FDelegateHandle = nat

datatype ETabSpawnerMenuType = Enabled | Disabled | Hidden

record FTabSpawnerEntry =
  TabType :: FName
  OnSpawnTab :: FString
  TabDisplayName :: FText
  Icon :: "FString list"
  MenuType :: ETabSpawnerMenuType

datatype EAppMsgType =
    MsgType_Ok | MsgType_YesNo | MsgType_OkCancel | MsgType_YesNoCancel
  | MsgType_CancelRetryContinue | MsgType_YesNoYesAllNoAll
  | MsgType_YesNoYesAllNoAllCancel | MsgType_YesNoYesAll

datatype EAppReturnType =
    Return_No | Return_Yes | Return_YesAll | Return_NoAll
  | Return_Cancel | Return_Ok | Return_Retry | Return_Continue

record FMessageDialog =
  MessageType :: EAppMsgType
  Message :: FText
  Title :: FText
  bModal :: bool

record FSettingsSection =
  ContainerName :: FName
  CategoryName :: FName
  SectionName :: FName
  SectionDisplayName :: FText
  SectionDescription :: FText

datatype ToolbarExtension =
    ToolMenuSection FName FName FText "FString list"
  | ToolBarExtender FName FString

record BuildSettings =
  ENGINE_MAJOR_VERSION :: nat
  ENGINE_MINOR_VERSION :: nat
  PLATFORM_WINDOWS :: bool

record EditorState =
  CustomizationManager :: "FString list option"
  ConsoleCommands :: bool
  PluginCommands :: "(FString \<times> FString) list option"
  bIsImportQueued :: bool
  QueuedImportHandle :: FDelegateHandle
  GeneratedCodeWatcherHandle :: FDelegateHandle
  SettingsModule :: bool
  AssetTypeActions :: "FString list"
  VisualPinFactories :: "FString list"
  CustomPropertyTypeLayouts :: "(FName \<times> FString) list"
  CustomClassLayouts :: "(FName \<times> FString) list"
  CustomizationModuleChanged :: nat
  SettingsSections :: "FSettingsSection list"
  EditorCommandsRegistered :: bool
  ToolbarExtensions :: "ToolbarExtension list"
  NomadTabSpawners :: "FTabSpawnerEntry list"
  DirectoryChangedCallbacks :: "(FString \<times> FString \<times> FDelegateHandle) list"
  EndPIE :: "(FDelegateHandle \<times> FString) list"
  NextDelegateId :: nat
  EditorStyleInitialized :: bool
  MessageDialogs :: "FMessageDialog list"

definition ArticyWindowTabID :: FName where
  "ArticyWindowTabID = ''ArticyWindowTab''"

definition ArticyGVDebuggerTabID :: FName where
  "ArticyGVDebuggerTabID = ''ArticyGVDebuggerTab''"

definition RegisterDirectoryWatcher :: "FString \<Rightarrow> EditorState \<Rightarrow> EditorState" where
  "RegisterDirectoryWatcher SourceFolder s =
     s\<lparr>DirectoryChangedCallbacks :=
         DirectoryChangedCallbacks s
         @ [(SourceFolder, ''FArticyEditorModule::OnGeneratedCodeChanged'', NextDelegateId s)],
       GeneratedCodeWatcherHandle := NextDelegateId s,
       NextDelegateId := NextDelegateId s + 1\<rparr>"

definition RegisterGraphPinFactory :: "EditorState \<Rightarrow> EditorState" where
  "RegisterGraphPinFactory s =
     s\<lparr>VisualPinFactories := VisualPinFactories s @ [''FArticyRefPinFactory'']\<rparr>"

definition RegisterConsoleCommands :: "EditorState \<Rightarrow> EditorState" where
  "RegisterConsoleCommands s = s\<lparr>ConsoleCommands := True\<rparr>"

text \<open>
  \<open>GetCustomizationManager()\<close> is dereferenced: with no manager the call does not return
  (\<open>None\<close>). The registration is compiled in on Windows only.
\<close>

definition RegisterDefaultArticyIdPropertyWidgetExtensions ::
  "BuildSettings \<Rightarrow> EditorState \<Rightarrow> EditorState option" where
  "RegisterDefaultArticyIdPropertyWidgetExtensions cfg s =
     (if PLATFORM_WINDOWS cfg
      then (case CustomizationManager s of
              None \<Rightarrow> None
            | Some factories \<Rightarrow>
                Some (s\<lparr>CustomizationManager :=
                          Some (factories @ [''FArticyButtonCustomizationFactory''])\<rparr>))
      else Some s)"

definition RegisterDetailCustomizations :: "EditorState \<Rightarrow> EditorState" where
  "RegisterDetailCustomizations s =
     s\<lparr>CustomPropertyTypeLayouts :=
         CustomPropertyTypeLayouts s
         @ [(''ArticyId'', ''FArticyIdCustomization::MakeInstance''),
            (''ArticyRef'', ''FArticyRefCustomization::MakeInstance'')],
       CustomClassLayouts :=
         CustomClassLayouts s
         @ [(''ArticyPluginSettings'', ''FArticyPluginSettingsCustomization::MakeInstance''),
            (''ArticyGlobalVariables'', ''FArticyGVCustomization::MakeInstance'')],
       CustomizationModuleChanged := CustomizationModuleChanged s + 1\<rparr>"

definition RegisterArticyToolbar :: "BuildSettings \<Rightarrow> EditorState \<Rightarrow> EditorState" where
  "RegisterArticyToolbar cfg s =
     (if ENGINE_MAJOR_VERSION cfg \<ge> 5
      then s\<lparr>ToolbarExtensions :=
                ToolbarExtensions s
                @ [ToolMenuSection ''LevelEditor.LevelEditorToolBar.LevelToolbarQuickSettings''
                     ''ArticyUtilities'' ''Articy Utilities''
                     [''OpenArticyImporter'', ''OpenArticyGvDebugger'']]\<rparr>
      else s\<lparr>ToolbarExtensions :=
                ToolbarExtensions s
                @ [ToolBarExtender ''Settings'' ''FArticyEditorModule::AddToolbarExtension'']\<rparr>)"

definition RegisterAssetTypeActions :: "EditorState \<Rightarrow> EditorState" where
  "RegisterAssetTypeActions s =
     s\<lparr>AssetTypeActions :=
         AssetTypeActions s @ [''FAssetTypeActions_ArticyGv'', ''FAssetTypeActions_ArticyAlterativeGV'']\<rparr>"

definition RegisterPluginCommands :: "EditorState \<Rightarrow> EditorState" where
  "RegisterPluginCommands s =
     s\<lparr>EditorCommandsRegistered := True,
       PluginCommands :=
         Some [(''OpenArticyImporter'', ''FArticyEditorModule::OpenArticyWindow''),
               (''OpenArticyGvDebugger'', ''FArticyEditorModule::OpenArticyGVDebugger'')]\<rparr>"

text \<open>
  \<open>RegisterNomadTabSpawner\<close> hands back the new entry, on which the display name, the icon
  and the menu type are then set.
\<close>

definition RegisterNomadTabSpawner :: "FName \<Rightarrow> FString \<Rightarrow> FTabSpawnerEntry" where
  "RegisterNomadTabSpawner TabId spawner =
     \<lparr>TabType = TabId, OnSpawnTab = spawner, TabDisplayName = [], Icon = [], MenuType = Enabled\<rparr>"

definition RegisterToolTabs :: "EditorState \<Rightarrow> EditorState" where
  "RegisterToolTabs s =
     s\<lparr>NomadTabSpawners :=
         NomadTabSpawners s
         @ [(RegisterNomadTabSpawner ArticyWindowTabID ''FArticyEditorModule::OnSpawnArticyMenuTab'')
              \<lparr>TabDisplayName := ''Articy Menu'',
               Icon := [''ArticyImporter.ArticyImporter.16'', ''ArticyImporter.ArticyImporter.8''],
               MenuType := Hidden\<rparr>,
            (RegisterNomadTabSpawner ArticyGVDebuggerTabID
               ''FArticyEditorModule::OnSpawnArticyGVDebuggerTab'')
              \<lparr>TabDisplayName := ''Articy GV Debugger'',
               Icon := [''ArticyImporter.ArticyImporter.16'', ''ArticyImporter.ArticyImporter.8''],
               MenuType := Hidden\<rparr>]\<rparr>"

definition RegisterPluginSettings :: "EditorState \<Rightarrow> EditorState" where
  "RegisterPluginSettings s =
     (if SettingsModule s
      then s\<lparr>SettingsSections :=
                SettingsSections s
                @ [\<lparr>ContainerName = ''Project'', CategoryName = ''Plugins'',
                    SectionName = ''ArticyImporter'',
                    SectionDisplayName = ''Articy X Importer'',
                    SectionDescription = ''Articy X Importer Configuration.''\<rparr>]\<rparr>
      else s)"

text \<open>
  \<open>StartupModule\<close>, call by call. The call of \<open>RegisterDirectoryWatcher\<close> is commented out
  in the source ("directory watcher has to be changed or removed as the results aren't
  quite deterministic"), so it is not part of the sequence.
\<close>

definition StartupModule :: "BuildSettings \<Rightarrow> EditorState \<Rightarrow> EditorState option" where
  "StartupModule cfg s0 =
     (let s = s0\<lparr>CustomizationManager := Some []\<rparr>;
          s = RegisterAssetTypeActions s;
          s = RegisterConsoleCommands s
      in case RegisterDefaultArticyIdPropertyWidgetExtensions cfg s of
           None \<Rightarrow> None
         | Some s \<Rightarrow>
             (let s = RegisterDetailCustomizations s;
                  s = RegisterGraphPinFactory s;
                  s = RegisterPluginSettings s;
                  s = RegisterPluginCommands s;
                  s = RegisterArticyToolbar cfg s;
                  s = RegisterToolTabs s
              in Some (s\<lparr>EditorStyleInitialized := True\<rparr>)))"

definition IsImportQueued :: "EditorState \<Rightarrow> bool" where
  "IsImportQueued s = bIsImportQueued s"

definition QueueImport :: "EditorState \<Rightarrow> EditorState" where
  "QueueImport s =
     s\<lparr>bIsImportQueued := True,
       MessageDialogs :=
         MessageDialogs s
         @ [\<lparr>MessageType = MsgType_Ok,
             Message = ''To import articy:draft data, the play mode has to be quit. Import will begin after exiting play.'',
             Title = ''Import not possible'', bModal = False\<rparr>],
       EndPIE := EndPIE s @ [(NextDelegateId s, ''FArticyEditorModule::TriggerQueuedImport'')],
       QueuedImportHandle := NextDelegateId s,
       NextDelegateId := NextDelegateId s + 1\<rparr>"

text \<open>
  \<open>OnGeneratedCodeChanged\<close>. The answer the user gives to the dialog is an input;
  \<open>FArticyEditorFunctionLibrary::ForceCompleteReimport\<close> is not part of the sources at
  hand and is a parameter. The file changes handed in are not looked at.
\<close>

definition missing_file_dialog :: FMessageDialog where
  "missing_file_dialog =
     \<lparr>MessageType = MsgType_YesNo,
      Message = ''It appears a generated code file is missing. Perform full reimport now?'',
      Title = ''Articy detected an error'', bModal = True\<rparr>"

definition OnGeneratedCodeChanged ::
  "(EditorState \<Rightarrow> EditorState) \<Rightarrow> ('imp, 'obj) ImportSurroundings \<Rightarrow> EAppReturnType \<Rightarrow>
   'change list \<Rightarrow> EditorState \<Rightarrow> EditorState" where
  "OnGeneratedCodeChanged ForceCompleteReimport env answer FileChanges s =
     (let Validity = CheckImportStatusValidity env
      in if Validity = FileMissing
         then (let s = s\<lparr>MessageDialogs := MessageDialogs s @ [missing_file_dialog]\<rparr>;
                   ReturnType = answer
               in if ReturnType = Return_Yes then ForceCompleteReimport s else s)
         else s)"

definition UnqueueImport :: "EditorState \<Rightarrow> EditorState" where
  "UnqueueImport s =
     s\<lparr>EndPIE := filter (\<lambda>(handle, bound). handle \<noteq> QueuedImportHandle s) (EndPIE s),
       QueuedImportHandle := 0,
       bIsImportQueued := False\<rparr>"

text \<open>
  \<open>TriggerQueuedImport\<close>; \<open>FArticyEditorFunctionLibrary::ReimportChanges\<close> is not part of
  the sources at hand and is a parameter that may change the state in any way.
\<close>

definition TriggerQueuedImport ::
  "(EditorState \<Rightarrow> EditorState) \<Rightarrow> bool \<Rightarrow> EditorState \<Rightarrow> EditorState" where
  "TriggerQueuedImport ReimportChanges b s = UnqueueImport (ReimportChanges s)"

text \<open>An editor in which nothing is registered yet, and two build settings.\<close>

definition fresh_editor :: EditorState where
  "fresh_editor =
     \<lparr>CustomizationManager = None, ConsoleCommands = False, PluginCommands = None,
      bIsImportQueued = False, QueuedImportHandle = 0, GeneratedCodeWatcherHandle = 0,
      SettingsModule = True, AssetTypeActions = [], VisualPinFactories = [],
      CustomPropertyTypeLayouts = [], CustomClassLayouts = [], CustomizationModuleChanged = 0,
      SettingsSections = [], EditorCommandsRegistered = False, ToolbarExtensions = [],
      NomadTabSpawners = [], DirectoryChangedCallbacks = [], EndPIE = [], NextDelegateId = 1,
      EditorStyleInitialized = False, MessageDialogs = []\<rparr>"

definition ue5_windows :: BuildSettings where
  "ue5_windows = \<lparr>ENGINE_MAJOR_VERSION = 5, ENGINE_MINOR_VERSION = 3, PLATFORM_WINDOWS = True\<rparr>"

section \<open>ArticyPluginSettingsCustomization.cpp\<close>

text \<open>
  The state \<open>CustomizeDetails\<close> works on: the two members of the customization, the
  \<open>OnAssetsGenerated\<close> event of the editor module, the \<open>OnFilesLoaded\<close> event of the asset
  registry, and the detail layout as its categories with their custom rows. A row is the
  \<open>SPackageSettings\<close> widget put into it, written by the package it displays.
\<close>

datatype 'k SPackageSettings = SPackageSettings (PackageToDisplay: 'k)

record 'k SettingsCustomization =
  LayoutBuilder :: bool
  RefreshHandle :: FDelegateHandle
  OnAssetsGenerated :: "(FDelegateHandle \<times> FString) list"
  OnFilesLoaded :: "(FDelegateHandle \<times> FString) list"
  Categories :: "(FName \<times> 'k SPackageSettings list) list"
  NextHandleId :: nat

definition EditCategory :: "FName \<Rightarrow> (FName \<times> 'row list) list \<Rightarrow> (FName \<times> 'row list) list" where
  "EditCategory name cats = (if name \<in> set (map fst cats) then cats else cats @ [(name, [])])"

definition AddCustomRow :: "FName \<Rightarrow> 'row \<Rightarrow> (FName \<times> 'row list) list \<Rightarrow> (FName \<times> 'row list) list" where
  "AddCustomRow name row cats =
     map (\<lambda>(c, rows). if c = name then (c, rows @ [row]) else (c, rows)) cats"

definition CategoryRows :: "FName \<Rightarrow> (FName \<times> 'row list) list \<Rightarrow> 'row list" where
  "CategoryRows name cats = (case map_of cats name of Some rows \<Rightarrow> rows | None \<Rightarrow> [])"

text \<open>The first loop: one widget per package name.\<close>

fun create_widgets :: "'k list \<Rightarrow> 'k SPackageSettings list \<Rightarrow> 'k SPackageSettings list" where
  "create_widgets [] PackageSettingsWidgets = PackageSettingsWidgets"
| "create_widgets (PackageName # rest) PackageSettingsWidgets =
     create_widgets rest (PackageSettingsWidgets @ [SPackageSettings PackageName])"

text \<open>The second loop: one custom row per widget.\<close>

fun add_rows :: "FName \<Rightarrow> 'row list \<Rightarrow> (FName \<times> 'row list) list \<Rightarrow> (FName \<times> 'row list) list" where
  "add_rows category [] cats = cats"
| "add_rows category (widget # rest) cats = add_rows category rest (AddCustomRow category widget cats)"

definition CustomizeDetails ::
  "('db, 'k) ArticyDatabaseApi \<Rightarrow> 'db option \<Rightarrow> bool \<Rightarrow> 'k SettingsCustomization \<Rightarrow>
   'k SettingsCustomization" where
  "CustomizeDetails api OriginalDatabase IsLoadingAssets s0 =
     (let s = s0\<lparr>LayoutBuilder := True,
                 OnAssetsGenerated :=
                   OnAssetsGenerated s0
                   @ [(NextHandleId s0, ''FArticyPluginSettingsCustomization::RefreshSettingsUI'')],
                 RefreshHandle := NextHandleId s0,
                 NextHandleId := NextHandleId s0 + 1\<rparr>
      in case OriginalDatabase of
           None \<Rightarrow>
             (if IsLoadingAssets
              then s\<lparr>OnFilesLoaded :=
                        OnFilesLoaded s
                        @ [(NextHandleId s, ''FArticyPluginSettingsCustomization::RefreshSettingsUI'')],
                      NextHandleId := NextHandleId s + 1\<rparr>
              else s)
         | Some db \<Rightarrow>
             (let cats = EditCategory ''Default packages'' (Categories s);
                  PackageSettingsWidgets = create_widgets (GetImportedPackageNames api db) []
              in s\<lparr>Categories := add_rows ''Default packages'' PackageSettingsWidgets cats\<rparr>))"

text \<open>A settings panel that was not customized yet, with one category.\<close>

definition example_panel :: "FString SettingsCustomization" where
  "example_panel =
     \<lparr>LayoutBuilder = False, RefreshHandle = 0, OnAssetsGenerated = [], OnFilesLoaded = [],
      Categories = [(''General'', [])], NextHandleId = 1\<rparr>"

section \<open>SArticyObjectToolTip.cpp\<close>

text \<open>
  The tooltip built is kept as its two sections: the text of the top section (the name)
  and the rows of the info box in the bottom section; borders, fonts and the image are
  left out. An articy object as the tooltip sees it: its asset name, the name of its class, and for
  each of the three interfaces what the cast to it yields: \<open>None\<close> when the object does
  not implement the interface, otherwise what the interface's getter returns.
  \<open>UArticyObject::FindAsset\<close> is not part of the sources at hand; it is a parameter that
  maps a speaker id to the asset found, or to \<open>None\<close> (a null pointer).
\<close>

record 'id ArticyObject =
  GetName :: FString
  GetClassName :: FString
  GetDisplayName :: "FText option"
  GetSpeakerId :: "'id option"
  GetText :: "FText option"

datatype Crash = NullPointerDereference

record InfoRow =
  Key :: FText
  Value :: FText
  bImportant :: bool

record ToolTipContent =
  TopSection :: FText
  BottomSection :: "InfoRow list"

definition AddToToolTipInfoBox :: "InfoRow list \<Rightarrow> FText \<Rightarrow> FText \<Rightarrow> bool \<Rightarrow> InfoRow list" where
  "AddToToolTipInfoBox box key val important =
     box @ [\<lparr>Key = key @ '':'', Value = val, bImportant = important\<rparr>]"

text \<open>
  The speaker block. The asset found is cast to \<open>IArticyObjectWithDisplayName\<close> and
  \<open>GetDisplayName\<close> is called on the result without a test: when no asset is found, or
  the asset does not implement the interface, the pointer is null.
\<close>

definition speaker_rows ::
  "('id \<Rightarrow> 'id ArticyObject option) \<Rightarrow> 'id ArticyObject \<Rightarrow> InfoRow list \<Rightarrow> Crash + InfoRow list" where
  "speaker_rows FindAsset ObjectToDisplay box =
     (case GetSpeakerId ObjectToDisplay of
        None \<Rightarrow> Inr box
      | Some SpeakerId \<Rightarrow>
          (let Speaker = FindAsset SpeakerId;
               DisplayNameOfSpeaker = (case Speaker of None \<Rightarrow> None | Some sp \<Rightarrow> GetDisplayName sp)
           in case DisplayNameOfSpeaker of
                None \<Rightarrow> Inl NullPointerDereference
              | Some DisplayName \<Rightarrow> Inr (AddToToolTipInfoBox box ''Speaker'' DisplayName True)))"

definition CreateToolTipContent ::
  "('id \<Rightarrow> 'id ArticyObject option) \<Rightarrow> 'id ArticyObject \<Rightarrow> Crash + ToolTipContent" where
  "CreateToolTipContent FindAsset ObjectToDisplay =
     (let AssetName = GetName ObjectToDisplay;
          ClassText = ''('' @ GetClassName ObjectToDisplay @ '')'';
          bUsingDisplayName =
            (case GetDisplayName ObjectToDisplay of
               None \<Rightarrow> False
             | Some DisplayName \<Rightarrow> DisplayName \<noteq> []);
          NameText =
            (case GetDisplayName ObjectToDisplay of
               None \<Rightarrow> AssetName
             | Some DisplayName \<Rightarrow> if DisplayName \<noteq> [] then DisplayName else AssetName)
      in case speaker_rows FindAsset ObjectToDisplay [] of
           Inl crash \<Rightarrow> Inl crash
         | Inr box \<Rightarrow>
             (let box = (case GetText ObjectToDisplay of
                           None \<Rightarrow> box
                         | Some Text \<Rightarrow>
                             if Text = [] then box
                             else AddToToolTipInfoBox box ''Text'' (dq @ Text @ dq) True);
                  box = (if bUsingDisplayName
                         then AddToToolTipInfoBox box ''Asset Name'' AssetName False
                         else box);
                  box = AddToToolTipInfoBox box ''Class'' ClassText False
              in Inr \<lparr>TopSection = NameText, BottomSection = box\<rparr>))"

text \<open>
  \<open>OnOpening\<close>: the content is built only for an object pointer that is valid.
\<close>

definition OnOpening ::
  "('id \<Rightarrow> 'id ArticyObject option) \<Rightarrow> 'id ArticyObject option \<Rightarrow> ToolTipContent option \<Rightarrow>
   Crash + ToolTipContent option" where
  "OnOpening FindAsset ObjectToDisplay content =
     (case ObjectToDisplay of
        None \<Rightarrow> Inr content
      | Some obj \<Rightarrow>
          (case CreateToolTipContent FindAsset obj of
             Inl crash \<Rightarrow> Inl crash
           | Inr new \<Rightarrow> Inr (Some new)))"

text \<open>
  Two objects to open the tooltip on: a dialogue fragment whose speaker id is not the id
  of any asset, and one whose speaker is an asset without a display name interface.
\<close>

definition fragment_without_speaker_asset :: "nat ArticyObject" where
  "fragment_without_speaker_asset =
     \<lparr>GetName = ''DFr_0001'', GetClassName = ''DialogueFragment'', GetDisplayName = None,
      GetSpeakerId = Some 0, GetText = Some ''Hello''\<rparr>"

definition no_assets :: "nat \<Rightarrow> nat ArticyObject option" where
  "no_assets SpeakerId = None"

definition comment_asset :: "nat ArticyObject" where
  "comment_asset =
     \<lparr>GetName = ''Cmt_0002'', GetClassName = ''Comment'', GetDisplayName = None,
      GetSpeakerId = None, GetText = Some ''a note''\<rparr>"

definition fragment_with_comment_speaker :: "nat ArticyObject" where
  "fragment_with_comment_speaker =
     \<lparr>GetName = ''DFr_0003'', GetClassName = ''DialogueFragment'', GetDisplayName = Some ''Greeting'',
      GetSpeakerId = Some 2, GetText = Some ''Hello''\<rparr>"

definition only_comment_asset :: "nat \<Rightarrow> nat ArticyObject option" where
  "only_comment_asset SpeakerId = (if SpeakerId = 2 then Some comment_asset else None)"

section \<open>Properties of the package settings\<close>

lemma remove_outdated_find:
  "TMap_Find (remove_outdated imported cur m) k =
     (if k \<in> set cur \<and> k \<notin> set imported then None else TMap_Find m k)"
  by (induction cur arbitrary: m)
     (auto simp: TMap_Find_def TMap_Remove_def delete_conv')

lemma add_missing_find:
  "TMap_Find (add_missing f cur names m) k =
     (if k \<in> set names \<and> k \<notin> set cur then Some (f k) else TMap_Find m k)"
  by (induction names arbitrary: m)
     (auto simp: TMap_Find_def TMap_Add_def update_conv')

lemma remove_outdated_distinct:
  "distinct (map fst m) \<Longrightarrow> distinct (map fst (remove_outdated imported cur m))"
  by (induction cur arbitrary: m) (auto simp: TMap_Remove_def distinct_delete)

lemma add_missing_distinct:
  "distinct (map fst m) \<Longrightarrow> distinct (map fst (add_missing f cur names m))"
  by (induction names arbitrary: m) (auto simp: TMap_Add_def distinct_update)

lemma TMap_keys_Find: "k \<in> set (TMap_GenerateKeyArray m) \<longleftrightarrow> TMap_Find m k \<noteq> None"
  by (simp add: TMap_GenerateKeyArray_def TMap_Find_def map_of_eq_None_iff)

lemma TMap_Contains_Find: "TMap_Contains m k \<longleftrightarrow> TMap_Find m k \<noteq> None"
  by (simp add: TMap_Contains_def TMap_Find_def map_of_eq_None_iff)

lemma UpdatePackageSettings_find:
  "TMap_Find (PackageLoadSettings (fst (UpdatePackageSettings api (Some db) cdo this))) k =
     (if k \<in> set (GetImportedPackageNames api db)
      then (case TMap_Find (PackageLoadSettings this) k of
              Some v \<Rightarrow> Some v
            | None \<Rightarrow> Some (IsPackageDefaultPackage api db k))
      else None)"
proof -
  have cur: "k \<in> set (TMap_GenerateKeyArray (PackageLoadSettings this))
               \<longleftrightarrow> TMap_Find (PackageLoadSettings this) k \<noteq> None"
    by (rule TMap_keys_Find)
  show ?thesis
    using cur
    by (auto simp: UpdatePackageSettings_def Let_def add_missing_find remove_outdated_find
             split: option.splits)
qed

text \<open>
  C2. When the articy database is valid, after \<open>UpdatePackageSettings\<close> the key set of
  \<open>PackageLoadSettings\<close> is the set of imported package names: a key that is not an
  imported name is gone, an imported name that was no key is added with the database's
  default-package flag, and a key that was present and is imported keeps its value.
\<close>

theorem UpdatePackageSettings_key_set:
  "set (TMap_GenerateKeyArray (PackageLoadSettings (fst (UpdatePackageSettings api (Some db) cdo this))))
     = set (GetImportedPackageNames api db)
   \<and> (\<forall>k. k \<notin> set (GetImportedPackageNames api db) \<longrightarrow>
          \<not> TMap_Contains (PackageLoadSettings (fst (UpdatePackageSettings api (Some db) cdo this))) k)
   \<and> (\<forall>k. k \<in> set (GetImportedPackageNames api db) \<and> \<not> TMap_Contains (PackageLoadSettings this) k \<longrightarrow>
          TMap_Find (PackageLoadSettings (fst (UpdatePackageSettings api (Some db) cdo this))) k
            = Some (IsPackageDefaultPackage api db k))
   \<and> (\<forall>k. k \<in> set (GetImportedPackageNames api db) \<and> TMap_Contains (PackageLoadSettings this) k \<longrightarrow>
          TMap_Find (PackageLoadSettings (fst (UpdatePackageSettings api (Some db) cdo this))) k
            = TMap_Find (PackageLoadSettings this) k)
   \<and> (distinct (TMap_GenerateKeyArray (PackageLoadSettings this)) \<longrightarrow>
        distinct (TMap_GenerateKeyArray (PackageLoadSettings (fst (UpdatePackageSettings api (Some db) cdo this)))))"
proof (intro conjI allI impI)
  show "set (TMap_GenerateKeyArray (PackageLoadSettings (fst (UpdatePackageSettings api (Some db) cdo this))))
          = set (GetImportedPackageNames api db)"
  proof (rule set_eqI)
    fix k
    show "k \<in> set (TMap_GenerateKeyArray (PackageLoadSettings (fst (UpdatePackageSettings api (Some db) cdo this))))
            \<longleftrightarrow> k \<in> set (GetImportedPackageNames api db)"
      unfolding TMap_keys_Find UpdatePackageSettings_find
      by (simp split: option.splits)
  qed
next
  fix k assume "k \<notin> set (GetImportedPackageNames api db)"
  then show "\<not> TMap_Contains (PackageLoadSettings (fst (UpdatePackageSettings api (Some db) cdo this))) k"
    unfolding TMap_Contains_Find UpdatePackageSettings_find by simp
next
  fix k assume "k \<in> set (GetImportedPackageNames api db) \<and> \<not> TMap_Contains (PackageLoadSettings this) k"
  then show "TMap_Find (PackageLoadSettings (fst (UpdatePackageSettings api (Some db) cdo this))) k
               = Some (IsPackageDefaultPackage api db k)"
    unfolding TMap_Contains_Find UpdatePackageSettings_find by simp
next
  fix k assume "k \<in> set (GetImportedPackageNames api db) \<and> TMap_Contains (PackageLoadSettings this) k"
  then show "TMap_Find (PackageLoadSettings (fst (UpdatePackageSettings api (Some db) cdo this))) k
               = TMap_Find (PackageLoadSettings this) k"
    unfolding TMap_Contains_Find UpdatePackageSettings_find by auto
next
  assume "distinct (TMap_GenerateKeyArray (PackageLoadSettings this))"
  then show "distinct (TMap_GenerateKeyArray (PackageLoadSettings (fst (UpdatePackageSettings api (Some db) cdo this))))"
    by (simp add: UpdatePackageSettings_def Let_def TMap_GenerateKeyArray_def
                  add_missing_distinct remove_outdated_distinct)
qed

theorem UpdatePackageSettings_key_set_witness:
  "set (TMap_GenerateKeyArray (PackageLoadSettings
          (fst (UpdatePackageSettings example_database_api (Some example_database) None example_settings))))
     = {''Chapter1'', ''Chapter2''}
   \<and> \<not> TMap_Contains (PackageLoadSettings
          (fst (UpdatePackageSettings example_database_api (Some example_database) None example_settings)))
        ''Prologue''
   \<and> TMap_Find (PackageLoadSettings
          (fst (UpdatePackageSettings example_database_api (Some example_database) None example_settings)))
        ''Chapter1'' = Some True
   \<and> TMap_Find (PackageLoadSettings
          (fst (UpdatePackageSettings example_database_api (Some example_database) None example_settings)))
        ''Chapter2'' = Some True
   \<and> distinct (TMap_GenerateKeyArray (PackageLoadSettings
          (fst (UpdatePackageSettings example_database_api (Some example_database) None example_settings))))"
proof -
  note t = UpdatePackageSettings_key_set
             [of example_database_api example_database None example_settings]
  have names: "GetImportedPackageNames example_database_api example_database = [''Chapter1'', ''Chapter2'']"
    by (simp add: example_database_api_def example_database_def)
  have gone: "''Prologue'' \<notin> set (GetImportedPackageNames example_database_api example_database)"
    by (simp add: names)
  have new: "''Chapter1'' \<in> set (GetImportedPackageNames example_database_api example_database)
             \<and> \<not> TMap_Contains (PackageLoadSettings example_settings) ''Chapter1''"
    by (simp add: names example_settings_def TMap_Contains_def)
  have kept: "''Chapter2'' \<in> set (GetImportedPackageNames example_database_api example_database)
              \<and> TMap_Contains (PackageLoadSettings example_settings) ''Chapter2''"
    by (simp add: names example_settings_def TMap_Contains_def)
  have dist: "distinct (TMap_GenerateKeyArray (PackageLoadSettings example_settings))"
    by (simp add: example_settings_def TMap_GenerateKeyArray_def)
  have flag: "IsPackageDefaultPackage example_database_api example_database ''Chapter1'' = True"
    by (simp add: example_database_api_def example_database_def)
  have old: "TMap_Find (PackageLoadSettings example_settings) ''Chapter2'' = Some True"
    by (simp add: example_settings_def TMap_Find_def)
  note keys = t [THEN conjunct1]
  note c_gone = t [THEN conjunct2, THEN conjunct1, rule_format, OF gone]
  note c_new = t [THEN conjunct2, THEN conjunct2, THEN conjunct1, rule_format, OF new]
  note c_kept = t [THEN conjunct2, THEN conjunct2, THEN conjunct2, THEN conjunct1, rule_format, OF kept]
  note c_dist = t [THEN conjunct2, THEN conjunct2, THEN conjunct2, THEN conjunct2, rule_format, OF dist]
  show ?thesis
    using keys c_gone c_new c_kept c_dist by (simp add: names flag old)
qed

section \<open>Properties of the generated header\<close>

lemma class_decls_append: "class_decls (xs @ ys) = class_decls xs @ class_decls ys"
  by (induction xs rule: class_decls.induct) simp_all

lemma uproperty_decls_append: "uproperty_decls (xs @ ys) = uproperty_decls xs @ uproperty_decls ys"
  by (induction xs rule: uproperty_decls.induct) simp_all

lemma plain_lines_append: "plain_lines (xs @ ys) = plain_lines xs @ plain_lines ys"
  by (induction xs rule: plain_lines.induct) simp_all

lemma method_decls_append: "method_decls (xs @ ys) = method_decls xs @ method_decls ys"
  by (induction xs rule: method_decls.induct) simp_all

lemma plain_lines_map_Line: "plain_lines (map (\<lambda>x. Line (f x)) xs) = map f xs"
  by (induction xs) simp_all

lemma plain_lines_pairs:
  "plain_lines (concat (map (\<lambda>x. [Line (f x), Line (g x)]) xs)) = concat (map (\<lambda>x. [f x, g x]) xs)"
  by (induction xs) simp_all

lemma uproperty_decls_map:
  "uproperty_decls (map (\<lambda>x. VariableDecl (t x) (n x) v (c x) True (s x)) xs) = map (\<lambda>x. (t x, n x, v)) xs"
  by (induction xs) simp_all

lemma method_decls_map_VariableDecl:
  "method_decls (map (\<lambda>x. VariableDecl (t x) (n x) v (c x) u (s x)) xs) = []"
  by (induction xs) simp_all

lemma namespace_classes_read:
  "map (\<lambda>(name, uclass, body). (name, uclass, uproperty_decls body, method_decls body))
       (class_decls (concat (map (\<lambda>ns. [Line [], namespace_class api ns]) nss))) =
   map (\<lambda>ns. (CppTypename ns @ '' : public UArticyBaseVariableSet'', True,
              map (\<lambda>v. (GetCPPTypeString api v @ ''*'', Variable v, ''nullptr'')) (Variables ns),
              [([], CppTypename ns, [],
                map (\<lambda>v. create_subobject_line (Variable v) (GetCPPTypeString api v)) (Variables ns)),
               (''void'', ''Init'', ''UArticyGlobalVariables* const Store'',
                concat (map (\<lambda>v. [variable_init_line api ns v, variables_add_line (Variable v)])
                            (Variables ns)))]))
       nss"
  by (induction nss)
     (simp_all add: namespace_class_def uproperty_decls_append uproperty_decls_map
        method_decls_append method_decls_map_VariableDecl plain_lines_map_Line plain_lines_pairs)

lemma global_class_read:
  "map (\<lambda>(name, uclass, body). (name, uclass, uproperty_decls body, method_decls body))
       (class_decls [global_variables_class type nss]) =
   [(type @ '' : public UArticyGlobalVariables'', True,
     map (\<lambda>ns. (CppTypename ns @ ''*'', Namespace ns, ''nullptr'')) nss,
     [([], type, [],
       map (\<lambda>ns. create_subobject_line (Namespace ns) (CppTypename ns)) nss @ [[], ''Init();'']),
      (''void'', ''Init'', [],
       concat (map (\<lambda>ns. [namespace_init_line (Namespace ns), variable_sets_add_line (Namespace ns)]) nss)),
      (''static '' @ type @ ''*'', ''GetDefault'', ''const UObject* WorldContext'',
       [''return static_cast<'' @ type @ ''*>(UArticyGlobalVariables::GetDefault(WorldContext));''])])]"
  by (simp add: global_variables_class_def uproperty_decls_append uproperty_decls_map
        method_decls_append method_decls_map_VariableDecl plain_lines_append plain_lines_map_Line
        plain_lines_pairs)

text \<open>
  C1. For a non-null import data object, \<open>GenerateCode\<close> sets \<open>OutFile\<close> to the global
  variables class name and writes the header \<open>OutFile.h\<close>. The classes of that header, in
  order, are one class derived from \<open>UArticyBaseVariableSet\<close> per namespace of
  \<open>GetGlobalVars().Namespaces\<close>, with one \<open>UPROPERTY\<close> pointer per variable, a constructor
  with one \<open>CreateDefaultSubobject\<close> line per variable and an \<open>Init\<close> method with one
  \<open>Init\<close> call and one \<open>Variables.Add\<close> call per variable; and then a single class derived
  from \<open>UArticyGlobalVariables\<close> with one pointer per namespace, a constructor that creates
  each namespace subobject and then calls \<open>Init()\<close>, and an \<open>Init\<close> method that calls each
  namespace's \<open>Init\<close> and adds it to \<open>VariableSets\<close>. The text of every such line is
  written out, the double quote being the character \<open>0x22\<close>.
\<close>

theorem GenerateCode_emits_classes:
  "fst (GenerateCode api (Some d) out) = GetGlobalVarsClassname api d True \<and>
   (\<exists>file. snd (GenerateCode api (Some d) out) = Some file \<and>
      Path file = GetGlobalVarsClassname api d True @ ''.h'' \<and>
      map (\<lambda>(name, uclass, body). (name, uclass, uproperty_decls body, method_decls body))
          (class_decls (Content file)) =
        map (\<lambda>ns. (CppTypename ns @ '' : public UArticyBaseVariableSet'', True,
                   map (\<lambda>v. (GetCPPTypeString api v @ ''*'', Variable v, ''nullptr'')) (Variables ns),
                   [([], CppTypename ns, [],
                     map (\<lambda>v. Variable v @ '' = CreateDefaultSubobject<'' @ GetCPPTypeString api v
                                @ ''>('' @ [CHR 0x22] @ Variable v @ [CHR 0x22] @ '');'') (Variables ns)),
                    (''void'', ''Init'', ''UArticyGlobalVariables* const Store'',
                     concat (map (\<lambda>v. [Variable v @ ''->Init<'' @ GetCPPTypeString api v @ ''>(this, Store, TEXT(''
                                      @ [CHR 0x22] @ Namespace ns @ ''.'' @ Variable v @ [CHR 0x22]
                                      @ ''), '' @ GetCPPValueString api v @ '');'',
                                    ''this->Variables.Add('' @ Variable v @ '');''])
                                 (Variables ns)))]))
            (Namespaces (GetGlobalVars d))
        @ [(GetGlobalVarsClassname api d False @ '' : public UArticyGlobalVariables'', True,
            map (\<lambda>ns. (CppTypename ns @ ''*'', Namespace ns, ''nullptr'')) (Namespaces (GetGlobalVars d)),
            [([], GetGlobalVarsClassname api d False, [],
              map (\<lambda>ns. Namespace ns @ '' = CreateDefaultSubobject<'' @ CppTypename ns
                         @ ''>('' @ [CHR 0x22] @ Namespace ns @ [CHR 0x22] @ '');'') (Namespaces (GetGlobalVars d))
              @ [[], ''Init();'']),
             (''void'', ''Init'', [],
              concat (map (\<lambda>ns. [Namespace ns @ ''->Init(this);'',
                             ''this->VariableSets.Add('' @ Namespace ns @ '');''])
                          (Namespaces (GetGlobalVars d)))),
             (''static '' @ GetGlobalVarsClassname api d False @ ''*'', ''GetDefault'',
              ''const UObject* WorldContext'',
              [''return static_cast<'' @ GetGlobalVarsClassname api d False
               @ ''*>(UArticyGlobalVariables::GetDefault(WorldContext));''])])])"
proof -
  let ?nss = "Namespaces (GetGlobalVars d)"
  let ?read = "\<lambda>(name, uclass, body). (name, uclass, uproperty_decls body, method_decls body)"
  have split: "class_decls (header_content api d (GetGlobalVarsClassname api d True)) =
      class_decls (concat (map (\<lambda>ns. [Line [], namespace_class api ns]) ?nss))
      @ class_decls [global_variables_class (GetGlobalVarsClassname api d False) ?nss]"
    unfolding header_content_def class_decls_append by simp
  have "map ?read (class_decls (header_content api d (GetGlobalVarsClassname api d True))) =
      map ?read (class_decls (concat (map (\<lambda>ns. [Line [], namespace_class api ns]) ?nss)))
      @ map ?read (class_decls [global_variables_class (GetGlobalVarsClassname api d False) ?nss])"
    unfolding split by simp
  then show ?thesis
    unfolding namespace_classes_read global_class_read
    by (simp add: GenerateCode_def Let_def create_subobject_line_def variable_init_line_def
          variables_add_line_def namespace_init_line_def variable_sets_add_line_def dq_def)
qed

text \<open>
  C7. Called with a null \<open>Data\<close> pointer, \<open>GenerateCode\<close> returns before generating
  anything: no file is produced and \<open>OutFile\<close> is left as it was.
\<close>

theorem GenerateCode_null_data:
  "GenerateCode api None OutFile = (OutFile, None)"
  by (simp add: GenerateCode_def)

section \<open>Properties of the import status\<close>

lemma assets_loop_null:
  "assets_loop xs = (if None \<in> set xs then Some FileMissing else None)"
  by (induction xs) auto

text \<open>
  C8. \<open>CheckImportStatusValidity\<close> evaluates its checks in a fixed order: no import data
  asset gives \<open>ImportDataAssetMissing\<close>; otherwise fewer than 5 files in the generated
  source folder give \<open>FileMissing\<close>; otherwise an asset under the generated folder that
  loads as null gives \<open>FileMissing\<close>; otherwise fewer than 3 such assets give
  \<open>ImportantAssetMissing\<close>; otherwise the status is \<open>Valid\<close>.
\<close>

theorem CheckImportStatusValidity_order:
  "CheckImportStatusValidity env =
     (if ImportDataAsset env = None then ImportDataAssetMissing
      else if length (SourceFolderFiles env) < 5 then FileMissing
      else if None \<in> set (ArticyAssets env) then FileMissing
      else if length (ArticyAssets env) < 3 then ImportantAssetMissing
      else Valid)"
  by (simp add: CheckImportStatusValidity_def assets_loop_null)

lemma CheckImportStatusValidity_FileMissing:
  "CheckImportStatusValidity env = FileMissing \<longleftrightarrow>
     ImportDataAsset env \<noteq> None \<and>
     (length (SourceFolderFiles env) < 5 \<or> None \<in> set (ArticyAssets env))"
  by (simp add: CheckImportStatusValidity_def assets_loop_null)

section \<open>Properties of the editor module\<close>

text \<open>
  What each registration function does to the registries that the claims are about.
\<close>

lemma RegisterAssetTypeActions_frame [simp]:
  "CustomPropertyTypeLayouts (RegisterAssetTypeActions s) = CustomPropertyTypeLayouts s"
  "CustomClassLayouts (RegisterAssetTypeActions s) = CustomClassLayouts s"
  "SettingsSections (RegisterAssetTypeActions s) = SettingsSections s"
  "SettingsModule (RegisterAssetTypeActions s) = SettingsModule s"
  "NomadTabSpawners (RegisterAssetTypeActions s) = NomadTabSpawners s"
  "DirectoryChangedCallbacks (RegisterAssetTypeActions s) = DirectoryChangedCallbacks s"
  "CustomizationManager (RegisterAssetTypeActions s) = CustomizationManager s"
  by (simp_all add: RegisterAssetTypeActions_def)

lemma RegisterConsoleCommands_frame [simp]:
  "CustomPropertyTypeLayouts (RegisterConsoleCommands s) = CustomPropertyTypeLayouts s"
  "CustomClassLayouts (RegisterConsoleCommands s) = CustomClassLayouts s"
  "SettingsSections (RegisterConsoleCommands s) = SettingsSections s"
  "SettingsModule (RegisterConsoleCommands s) = SettingsModule s"
  "NomadTabSpawners (RegisterConsoleCommands s) = NomadTabSpawners s"
  "DirectoryChangedCallbacks (RegisterConsoleCommands s) = DirectoryChangedCallbacks s"
  "CustomizationManager (RegisterConsoleCommands s) = CustomizationManager s"
  by (simp_all add: RegisterConsoleCommands_def)

lemma RegisterDefaultArticyIdPropertyWidgetExtensions_returns:
  "CustomizationManager s = Some factories \<Longrightarrow>
   \<exists>s'. RegisterDefaultArticyIdPropertyWidgetExtensions cfg s = Some s' \<and>
     CustomPropertyTypeLayouts s' = CustomPropertyTypeLayouts s \<and>
     CustomClassLayouts s' = CustomClassLayouts s \<and>
     SettingsSections s' = SettingsSections s \<and>
     SettingsModule s' = SettingsModule s \<and>
     NomadTabSpawners s' = NomadTabSpawners s \<and>
     DirectoryChangedCallbacks s' = DirectoryChangedCallbacks s"
  by (simp add: RegisterDefaultArticyIdPropertyWidgetExtensions_def)

lemma RegisterDetailCustomizations_frame [simp]:
  "CustomPropertyTypeLayouts (RegisterDetailCustomizations s) =
     CustomPropertyTypeLayouts s
     @ [(''ArticyId'', ''FArticyIdCustomization::MakeInstance''),
        (''ArticyRef'', ''FArticyRefCustomization::MakeInstance'')]"
  "CustomClassLayouts (RegisterDetailCustomizations s) =
     CustomClassLayouts s
     @ [(''ArticyPluginSettings'', ''FArticyPluginSettingsCustomization::MakeInstance''),
        (''ArticyGlobalVariables'', ''FArticyGVCustomization::MakeInstance'')]"
  "SettingsSections (RegisterDetailCustomizations s) = SettingsSections s"
  "SettingsModule (RegisterDetailCustomizations s) = SettingsModule s"
  "NomadTabSpawners (RegisterDetailCustomizations s) = NomadTabSpawners s"
  "DirectoryChangedCallbacks (RegisterDetailCustomizations s) = DirectoryChangedCallbacks s"
  by (simp_all add: RegisterDetailCustomizations_def)

lemma RegisterGraphPinFactory_frame [simp]:
  "CustomPropertyTypeLayouts (RegisterGraphPinFactory s) = CustomPropertyTypeLayouts s"
  "CustomClassLayouts (RegisterGraphPinFactory s) = CustomClassLayouts s"
  "SettingsSections (RegisterGraphPinFactory s) = SettingsSections s"
  "SettingsModule (RegisterGraphPinFactory s) = SettingsModule s"
  "NomadTabSpawners (RegisterGraphPinFactory s) = NomadTabSpawners s"
  "DirectoryChangedCallbacks (RegisterGraphPinFactory s) = DirectoryChangedCallbacks s"
  by (simp_all add: RegisterGraphPinFactory_def)

lemma RegisterPluginSettings_frame [simp]:
  "CustomPropertyTypeLayouts (RegisterPluginSettings s) = CustomPropertyTypeLayouts s"
  "CustomClassLayouts (RegisterPluginSettings s) = CustomClassLayouts s"
  "SettingsSections (RegisterPluginSettings s) =
     SettingsSections s
     @ (if SettingsModule s
        then [\<lparr>ContainerName = ''Project'', CategoryName = ''Plugins'',
               SectionName = ''ArticyImporter'',
               SectionDisplayName = ''Articy X Importer'',
               SectionDescription = ''Articy X Importer Configuration.''\<rparr>]
        else [])"
  "NomadTabSpawners (RegisterPluginSettings s) = NomadTabSpawners s"
  "DirectoryChangedCallbacks (RegisterPluginSettings s) = DirectoryChangedCallbacks s"
  by (simp_all add: RegisterPluginSettings_def)

lemma RegisterPluginCommands_frame [simp]:
  "CustomPropertyTypeLayouts (RegisterPluginCommands s) = CustomPropertyTypeLayouts s"
  "CustomClassLayouts (RegisterPluginCommands s) = CustomClassLayouts s"
  "SettingsSections (RegisterPluginCommands s) = SettingsSections s"
  "NomadTabSpawners (RegisterPluginCommands s) = NomadTabSpawners s"
  "DirectoryChangedCallbacks (RegisterPluginCommands s) = DirectoryChangedCallbacks s"
  by (simp_all add: RegisterPluginCommands_def)

lemma RegisterArticyToolbar_frame [simp]:
  "CustomPropertyTypeLayouts (RegisterArticyToolbar cfg s) = CustomPropertyTypeLayouts s"
  "CustomClassLayouts (RegisterArticyToolbar cfg s) = CustomClassLayouts s"
  "SettingsSections (RegisterArticyToolbar cfg s) = SettingsSections s"
  "NomadTabSpawners (RegisterArticyToolbar cfg s) = NomadTabSpawners s"
  "DirectoryChangedCallbacks (RegisterArticyToolbar cfg s) = DirectoryChangedCallbacks s"
  by (simp_all add: RegisterArticyToolbar_def)

lemma RegisterToolTabs_frame [simp]:
  "CustomPropertyTypeLayouts (RegisterToolTabs s) = CustomPropertyTypeLayouts s"
  "CustomClassLayouts (RegisterToolTabs s) = CustomClassLayouts s"
  "SettingsSections (RegisterToolTabs s) = SettingsSections s"
  "NomadTabSpawners (RegisterToolTabs s) =
     NomadTabSpawners s
     @ [\<lparr>TabType = ''ArticyWindowTab'', OnSpawnTab = ''FArticyEditorModule::OnSpawnArticyMenuTab'',
         TabDisplayName = ''Articy Menu'',
         Icon = [''ArticyImporter.ArticyImporter.16'', ''ArticyImporter.ArticyImporter.8''],
         MenuType = Hidden\<rparr>,
        \<lparr>TabType = ''ArticyGVDebuggerTab'',
         OnSpawnTab = ''FArticyEditorModule::OnSpawnArticyGVDebuggerTab'',
         TabDisplayName = ''Articy GV Debugger'',
         Icon = [''ArticyImporter.ArticyImporter.16'', ''ArticyImporter.ArticyImporter.8''],
         MenuType = Hidden\<rparr>]"
  "DirectoryChangedCallbacks (RegisterToolTabs s) = DirectoryChangedCallbacks s"
  by (simp_all add: RegisterToolTabs_def RegisterNomadTabSpawner_def ArticyWindowTabID_def
        ArticyGVDebuggerTabID_def)



lemma StartupModule_fields:
  "\<exists>s'. StartupModule cfg s = Some s' \<and>
     CustomPropertyTypeLayouts s' =
       CustomPropertyTypeLayouts s
       @ [(''ArticyId'', ''FArticyIdCustomization::MakeInstance''),
          (''ArticyRef'', ''FArticyRefCustomization::MakeInstance'')] \<and>
     CustomClassLayouts s' =
       CustomClassLayouts s
       @ [(''ArticyPluginSettings'', ''FArticyPluginSettingsCustomization::MakeInstance''),
          (''ArticyGlobalVariables'', ''FArticyGVCustomization::MakeInstance'')] \<and>
     SettingsSections s' =
       SettingsSections s
       @ (if SettingsModule s
          then [\<lparr>ContainerName = ''Project'', CategoryName = ''Plugins'',
                 SectionName = ''ArticyImporter'',
                 SectionDisplayName = ''Articy X Importer'',
                 SectionDescription = ''Articy X Importer Configuration.''\<rparr>]
          else []) \<and>
     NomadTabSpawners s' =
       NomadTabSpawners s
       @ [\<lparr>TabType = ''ArticyWindowTab'', OnSpawnTab = ''FArticyEditorModule::OnSpawnArticyMenuTab'',
           TabDisplayName = ''Articy Menu'',
           Icon = [''ArticyImporter.ArticyImporter.16'', ''ArticyImporter.ArticyImporter.8''],
           MenuType = Hidden\<rparr>,
          \<lparr>TabType = ''ArticyGVDebuggerTab'',
           OnSpawnTab = ''FArticyEditorModule::OnSpawnArticyGVDebuggerTab'',
           TabDisplayName = ''Articy GV Debugger'',
           Icon = [''ArticyImporter.ArticyImporter.16'', ''ArticyImporter.ArticyImporter.8''],
           MenuType = Hidden\<rparr>] \<and>
     DirectoryChangedCallbacks s' = DirectoryChangedCallbacks s"
proof -
  let ?s1 = "RegisterConsoleCommands (RegisterAssetTypeActions (s\<lparr>CustomizationManager := Some []\<rparr>))"
  have "CustomizationManager ?s1 = Some []"
    by simp
  from RegisterDefaultArticyIdPropertyWidgetExtensions_returns [OF this, of cfg]
  obtain s2 where s2: "RegisterDefaultArticyIdPropertyWidgetExtensions cfg ?s1 = Some s2 \<and>
     CustomPropertyTypeLayouts s2 = CustomPropertyTypeLayouts ?s1 \<and>
     CustomClassLayouts s2 = CustomClassLayouts ?s1 \<and>
     SettingsSections s2 = SettingsSections ?s1 \<and>
     SettingsModule s2 = SettingsModule ?s1 \<and>
     NomadTabSpawners s2 = NomadTabSpawners ?s1 \<and>
     DirectoryChangedCallbacks s2 = DirectoryChangedCallbacks ?s1" ..
  let ?s3 = "(RegisterToolTabs (RegisterArticyToolbar cfg (RegisterPluginCommands
               (RegisterPluginSettings (RegisterGraphPinFactory (RegisterDetailCustomizations s2))))))
             \<lparr>EditorStyleInitialized := True\<rparr>"
  have run: "StartupModule cfg s = Some ?s3"
    using s2 by (simp add: StartupModule_def Let_def)
  show ?thesis
    unfolding run using s2 by simp
qed

text \<open>
  C4. Every \<open>StartupModule\<close> call returns and registers property type customizations
  for \<open>ArticyId\<close> and \<open>ArticyRef\<close>, class customizations for \<open>ArticyPluginSettings\<close> and
  \<open>ArticyGlobalVariables\<close>, the settings section \<open>ArticyImporter\<close> under Project/Plugins
  when the Settings module is present, and two hidden nomad tab spawners: the Articy Menu
  tab and the Articy GV Debugger tab.
\<close>

theorem StartupModule_registrations:
  "\<exists>s'. StartupModule cfg s = Some s' \<and>
     CustomPropertyTypeLayouts s' =
       CustomPropertyTypeLayouts s
       @ [(''ArticyId'', ''FArticyIdCustomization::MakeInstance''),
          (''ArticyRef'', ''FArticyRefCustomization::MakeInstance'')] \<and>
     CustomClassLayouts s' =
       CustomClassLayouts s
       @ [(''ArticyPluginSettings'', ''FArticyPluginSettingsCustomization::MakeInstance''),
          (''ArticyGlobalVariables'', ''FArticyGVCustomization::MakeInstance'')] \<and>
     SettingsSections s' =
       SettingsSections s
       @ (if SettingsModule s
          then [\<lparr>ContainerName = ''Project'', CategoryName = ''Plugins'',
                 SectionName = ''ArticyImporter'',
                 SectionDisplayName = ''Articy X Importer'',
                 SectionDescription = ''Articy X Importer Configuration.''\<rparr>]
          else []) \<and>
     NomadTabSpawners s' =
       NomadTabSpawners s
       @ [\<lparr>TabType = ''ArticyWindowTab'', OnSpawnTab = ''FArticyEditorModule::OnSpawnArticyMenuTab'',
           TabDisplayName = ''Articy Menu'',
           Icon = [''ArticyImporter.ArticyImporter.16'', ''ArticyImporter.ArticyImporter.8''],
           MenuType = Hidden\<rparr>,
          \<lparr>TabType = ''ArticyGVDebuggerTab'',
           OnSpawnTab = ''FArticyEditorModule::OnSpawnArticyGVDebuggerTab'',
           TabDisplayName = ''Articy GV Debugger'',
           Icon = [''ArticyImporter.ArticyImporter.16'', ''ArticyImporter.ArticyImporter.8''],
           MenuType = Hidden\<rparr>]"
  using StartupModule_fields [of cfg s] by (elim exE conjE) (rule exI, simp)

text \<open>
  C3, as the claim states it, fails: after \<open>StartupModule\<close> on an editor in which nothing
  is registered, no directory watcher callback is registered.
\<close>

theorem StartupModule_registers_no_watcher:
  "map_option DirectoryChangedCallbacks (StartupModule ue5_windows fresh_editor) = Some []"
  using StartupModule_fields [of ue5_windows fresh_editor]
  by (elim exE conjE) (simp add: fresh_editor_def)

text \<open>
  C3, amended. \<open>StartupModule\<close> leaves the directory watcher callbacks as they are (the
  call of \<open>RegisterDirectoryWatcher\<close> is disabled). \<open>RegisterDirectoryWatcher\<close>, when it
  is called, registers \<open>OnGeneratedCodeChanged\<close> on the generated source folder and keeps
  the handle. \<open>OnGeneratedCodeChanged\<close> prompts the user exactly when the import status
  is \<open>FileMissing\<close>, that is when the import data asset exists and fewer than 5 files
  are in the source folder or an asset loads as null, and forces a complete reimport
  exactly when the user then answers Yes.
\<close>

theorem directory_watcher_when_registered:
  "map_option DirectoryChangedCallbacks (StartupModule cfg s) = Some (DirectoryChangedCallbacks s)
   \<and> DirectoryChangedCallbacks (RegisterDirectoryWatcher SourceFolder s) =
       DirectoryChangedCallbacks s
       @ [(SourceFolder, ''FArticyEditorModule::OnGeneratedCodeChanged'', NextDelegateId s)]
   \<and> GeneratedCodeWatcherHandle (RegisterDirectoryWatcher SourceFolder s) = NextDelegateId s
   \<and> OnGeneratedCodeChanged ForceCompleteReimport env answer FileChanges s =
       (if ImportDataAsset env \<noteq> None \<and>
           (length (SourceFolderFiles env) < 5 \<or> None \<in> set (ArticyAssets env))
        then (if answer = Return_Yes
              then ForceCompleteReimport (s\<lparr>MessageDialogs := MessageDialogs s @ [missing_file_dialog]\<rparr>)
              else s\<lparr>MessageDialogs := MessageDialogs s @ [missing_file_dialog]\<rparr>)
        else s)"
proof (intro conjI)
  show "map_option DirectoryChangedCallbacks (StartupModule cfg s) = Some (DirectoryChangedCallbacks s)"
    using StartupModule_fields [of cfg s] by (elim exE conjE) simp
  show "DirectoryChangedCallbacks (RegisterDirectoryWatcher SourceFolder s) =
       DirectoryChangedCallbacks s
       @ [(SourceFolder, ''FArticyEditorModule::OnGeneratedCodeChanged'', NextDelegateId s)]"
    by (simp add: RegisterDirectoryWatcher_def)
  show "GeneratedCodeWatcherHandle (RegisterDirectoryWatcher SourceFolder s) = NextDelegateId s"
    by (simp add: RegisterDirectoryWatcher_def)
  show "OnGeneratedCodeChanged ForceCompleteReimport env answer FileChanges s =
       (if ImportDataAsset env \<noteq> None \<and>
           (length (SourceFolderFiles env) < 5 \<or> None \<in> set (ArticyAssets env))
        then (if answer = Return_Yes
              then ForceCompleteReimport (s\<lparr>MessageDialogs := MessageDialogs s @ [missing_file_dialog]\<rparr>)
              else s\<lparr>MessageDialogs := MessageDialogs s @ [missing_file_dialog]\<rparr>)
        else s)"
    using CheckImportStatusValidity_FileMissing [of env]
    by (simp add: OnGeneratedCodeChanged_def Let_def)
qed

lemma UnqueueImport_EndPIE_fresh:
  assumes "\<forall>h \<in> fst ` set (EndPIE s). h < NextDelegateId s"
  shows "filter (\<lambda>(handle, bound). handle \<noteq> NextDelegateId s) (EndPIE s) = EndPIE s"
  using assms by (induction "EndPIE s") (auto simp: filter_id_conv)

text \<open>
  C10. \<open>QueueImport\<close> sets the queued flag and binds \<open>TriggerQueuedImport\<close> to the
  end-of-play delegate under the handle it keeps. Every \<open>TriggerQueuedImport\<close>, whatever
  \<open>ReimportChanges\<close> does, ends with the delegate of the kept handle removed, the handle
  reset and the flag cleared, so that \<open>IsImportQueued\<close> is false afterwards. When the
  handles in use are below the next one and \<open>ReimportChanges\<close> leaves the delegate and the
  handle alone, queueing and then triggering gives back the delegate list from before.
\<close>

theorem import_queue_returns_to_idle:
  "IsImportQueued (QueueImport s)
   \<and> (QueuedImportHandle (QueueImport s), ''FArticyEditorModule::TriggerQueuedImport'')
       \<in> set (EndPIE (QueueImport s))
   \<and> \<not> IsImportQueued (TriggerQueuedImport ReimportChanges b s)
   \<and> QueuedImportHandle (TriggerQueuedImport ReimportChanges b s) = 0
   \<and> QueuedImportHandle (ReimportChanges s)
       \<notin> fst ` set (EndPIE (TriggerQueuedImport ReimportChanges b s))
   \<and> \<not> IsImportQueued (TriggerQueuedImport ReimportChanges b (QueueImport s))
   \<and> ((\<forall>h \<in> fst ` set (EndPIE s). h < NextDelegateId s)
        \<and> EndPIE (ReimportChanges (QueueImport s)) = EndPIE (QueueImport s)
        \<and> QueuedImportHandle (ReimportChanges (QueueImport s)) = QueuedImportHandle (QueueImport s)
       \<longrightarrow> EndPIE (TriggerQueuedImport ReimportChanges b (QueueImport s)) = EndPIE s)"
proof (intro conjI impI)
  show "IsImportQueued (QueueImport s)"
    by (simp add: IsImportQueued_def QueueImport_def)
  show "(QueuedImportHandle (QueueImport s), ''FArticyEditorModule::TriggerQueuedImport'')
          \<in> set (EndPIE (QueueImport s))"
    by (simp add: QueueImport_def)
  show "\<not> IsImportQueued (TriggerQueuedImport ReimportChanges b s)"
    by (simp add: IsImportQueued_def TriggerQueuedImport_def UnqueueImport_def)
  show "QueuedImportHandle (TriggerQueuedImport ReimportChanges b s) = 0"
    by (simp add: TriggerQueuedImport_def UnqueueImport_def)
  show "QueuedImportHandle (ReimportChanges s)
          \<notin> fst ` set (EndPIE (TriggerQueuedImport ReimportChanges b s))"
    by (auto simp: TriggerQueuedImport_def UnqueueImport_def)
  show "\<not> IsImportQueued (TriggerQueuedImport ReimportChanges b (QueueImport s))"
    by (simp add: IsImportQueued_def TriggerQueuedImport_def UnqueueImport_def)
next
  assume a: "(\<forall>h \<in> fst ` set (EndPIE s). h < NextDelegateId s)
        \<and> EndPIE (ReimportChanges (QueueImport s)) = EndPIE (QueueImport s)
        \<and> QueuedImportHandle (ReimportChanges (QueueImport s)) = QueuedImportHandle (QueueImport s)"
  then have fresh: "filter (\<lambda>(handle, bound). handle \<noteq> NextDelegateId s) (EndPIE s) = EndPIE s"
    by (simp add: UnqueueImport_EndPIE_fresh)
  from a have "EndPIE (TriggerQueuedImport ReimportChanges b (QueueImport s)) =
      filter (\<lambda>(handle, bound). handle \<noteq> QueuedImportHandle (QueueImport s)) (EndPIE (QueueImport s))"
    by (simp add: TriggerQueuedImport_def UnqueueImport_def)
  also have "\<dots> = EndPIE s"
    using fresh by (simp add: QueueImport_def)
  finally show "EndPIE (TriggerQueuedImport ReimportChanges b (QueueImport s)) = EndPIE s" .
qed

theorem import_queue_returns_to_idle_witness:
  "EndPIE (TriggerQueuedImport (\<lambda>s. s\<lparr>EditorStyleInitialized := True\<rparr>) True (QueueImport fresh_editor)) = []
   \<and> EndPIE (QueueImport fresh_editor) = [(1, ''FArticyEditorModule::TriggerQueuedImport'')]
   \<and> \<not> IsImportQueued
         (TriggerQueuedImport (\<lambda>s. s\<lparr>EditorStyleInitialized := True\<rparr>) True (QueueImport fresh_editor))"
proof -
  note t = import_queue_returns_to_idle
             [of fresh_editor "\<lambda>s. s\<lparr>EditorStyleInitialized := True\<rparr>" True]
  have h: "(\<forall>h \<in> fst ` set (EndPIE fresh_editor). h < NextDelegateId fresh_editor)
           \<and> EndPIE ((QueueImport fresh_editor)\<lparr>EditorStyleInitialized := True\<rparr>)
               = EndPIE (QueueImport fresh_editor)
           \<and> QueuedImportHandle ((QueueImport fresh_editor)\<lparr>EditorStyleInitialized := True\<rparr>)
               = QueuedImportHandle (QueueImport fresh_editor)"
    by (simp add: fresh_editor_def)
  note idle = t [THEN conjunct2, THEN conjunct2, THEN conjunct2, THEN conjunct2, THEN conjunct2,
                 THEN conjunct1]
  note restored = t [THEN conjunct2, THEN conjunct2, THEN conjunct2, THEN conjunct2, THEN conjunct2,
                 THEN conjunct2, rule_format, OF h]
  have queued: "EndPIE (QueueImport fresh_editor) = [(1, ''FArticyEditorModule::TriggerQueuedImport'')]"
    by (simp add: QueueImport_def fresh_editor_def)
  have empty: "EndPIE fresh_editor = []"
    by (simp add: fresh_editor_def)
  show ?thesis
    using idle restored queued empty by simp
qed

section \<open>Properties of the settings customization\<close>

lemma create_widgets_map:
  "create_widgets names acc = acc @ map SPackageSettings names"
  by (induction names arbitrary: acc) simp_all

lemma map_of_AddCustomRow:
  "map_of (AddCustomRow name row cats) c =
     (if c = name then map_option (\<lambda>rows. rows @ [row]) (map_of cats c) else map_of cats c)"
  by (induction cats) (auto simp: AddCustomRow_def)

lemma map_of_add_rows:
  "map_of (add_rows name widgets cats) c =
     (if c = name then map_option (\<lambda>rows. rows @ widgets) (map_of cats c) else map_of cats c)"
proof (induction widgets arbitrary: cats)
  case Nil
  show ?case by (simp add: option.map_ident)
next
  case (Cons w ws)
  show ?case
    by (simp add: Cons.IH map_of_AddCustomRow option.map_comp comp_def)
qed

lemma map_of_EditCategory:
  "map_of (EditCategory name cats) c =
     (if c = name \<and> map_of cats name = None then Some [] else map_of cats c)"
proof (cases "name \<in> set (map fst cats)")
  case True
  then have "map_of cats name \<noteq> None"
    by (simp add: map_of_eq_None_iff)
  with True show ?thesis
    by (simp add: EditCategory_def)
next
  case False
  then have none: "map_of cats name = None"
    by (simp add: map_of_eq_None_iff)
  from False have "map_of (EditCategory name cats) c = ([name \<mapsto> []] ++ map_of cats) c"
    by (simp add: EditCategory_def)
  also have "\<dots> = (if c = name then Some [] else map_of cats c)"
    using none by (simp add: map_add_def split: option.splits)
  finally show ?thesis
    using none by simp
qed

lemma CategoryRows_add_rows_EditCategory:
  "CategoryRows c (add_rows name widgets (EditCategory name cats)) =
     (if c = name then CategoryRows name cats @ widgets else CategoryRows c cats)"
  by (simp add: CategoryRows_def map_of_add_rows map_of_EditCategory split: option.splits)

text \<open>
  C6. With the articy database available, \<open>CustomizeDetails\<close> adds to the category
  "Default packages" exactly one \<open>SPackageSettings\<close> row per imported package name, in
  the order the names are returned, and leaves the other categories and \<open>OnFilesLoaded\<close>
  as they are. With no database, no row is added, and a refresh of the UI is bound to
  \<open>OnFilesLoaded\<close> exactly when the asset registry is still loading.
\<close>

theorem CustomizeDetails_rows:
  "CategoryRows ''Default packages'' (Categories (CustomizeDetails api (Some db) loading s)) =
     CategoryRows ''Default packages'' (Categories s)
     @ map SPackageSettings (GetImportedPackageNames api db)
   \<and> (\<forall>c. c \<noteq> ''Default packages'' \<longrightarrow>
         CategoryRows c (Categories (CustomizeDetails api (Some db) loading s)) =
         CategoryRows c (Categories s))
   \<and> OnFilesLoaded (CustomizeDetails api (Some db) loading s) = OnFilesLoaded s
   \<and> Categories (CustomizeDetails api None loading s) = Categories s
   \<and> OnFilesLoaded (CustomizeDetails api None loading s) =
       OnFilesLoaded s
       @ (if loading
          then [(NextHandleId s + 1, ''FArticyPluginSettingsCustomization::RefreshSettingsUI'')]
          else [])"
proof (intro conjI allI impI)
  show "CategoryRows ''Default packages'' (Categories (CustomizeDetails api (Some db) loading s)) =
     CategoryRows ''Default packages'' (Categories s)
     @ map SPackageSettings (GetImportedPackageNames api db)"
    by (simp add: CustomizeDetails_def Let_def CategoryRows_add_rows_EditCategory create_widgets_map)
next
  fix c :: FName
  assume "c \<noteq> ''Default packages''"
  then show "CategoryRows c (Categories (CustomizeDetails api (Some db) loading s)) =
         CategoryRows c (Categories s)"
    by (simp add: CustomizeDetails_def Let_def CategoryRows_add_rows_EditCategory)
next
  show "OnFilesLoaded (CustomizeDetails api (Some db) loading s) = OnFilesLoaded s"
    by (simp add: CustomizeDetails_def Let_def)
  show "Categories (CustomizeDetails api None loading s) = Categories s"
    by (simp add: CustomizeDetails_def Let_def)
  show "OnFilesLoaded (CustomizeDetails api None loading s) =
       OnFilesLoaded s
       @ (if loading
          then [(NextHandleId s + 1, ''FArticyPluginSettingsCustomization::RefreshSettingsUI'')]
          else [])"
    by (simp add: CustomizeDetails_def Let_def)
qed

theorem CustomizeDetails_rows_witness:
  "CategoryRows ''Default packages''
     (Categories (CustomizeDetails example_database_api (Some example_database) True example_panel))
     = [SPackageSettings ''Chapter1'', SPackageSettings ''Chapter2'']
   \<and> CategoryRows ''General''
     (Categories (CustomizeDetails example_database_api (Some example_database) True example_panel))
     = []
   \<and> OnFilesLoaded (CustomizeDetails example_database_api None True example_panel)
     = [(2, ''FArticyPluginSettingsCustomization::RefreshSettingsUI'')]"
proof -
  note t = CustomizeDetails_rows [of example_database_api example_database True example_panel]
  have other: "''General'' \<noteq> ''Default packages''"
    by simp
  note rows = t [THEN conjunct1]
  note general = t [THEN conjunct2, THEN conjunct1, rule_format, OF other]
  note loaded = t [THEN conjunct2, THEN conjunct2, THEN conjunct2, THEN conjunct2]
  have names: "GetImportedPackageNames example_database_api example_database = [''Chapter1'', ''Chapter2'']"
    by (simp add: example_database_api_def example_database_def)
  have before: "CategoryRows ''Default packages'' (Categories example_panel) = []"
    "CategoryRows ''General'' (Categories example_panel) = []"
    "OnFilesLoaded example_panel = []" "NextHandleId example_panel = 1"
    by (simp_all add: example_panel_def CategoryRows_def)
  show ?thesis
    using rows general loaded by (simp add: names before)
qed

section \<open>Properties of the tooltip\<close>

text \<open>
  When the object has no speaker interface, or its speaker id is the id of an asset with
  a display name interface, the tooltip is built: the title is the display name when the
  object has a non-empty one and the asset name otherwise; the info box holds, in this
  order, the speaker's display name (with a speaker interface), the text in double quotes
  (when not empty), the asset name (when the display name is the title) and the class
  name in parentheses.
\<close>

lemma CreateToolTipContent_content:
  assumes "GetSpeakerId obj = None \<or>
           (\<exists>SpeakerId sp dn. GetSpeakerId obj = Some SpeakerId \<and> FindAsset SpeakerId = Some sp
              \<and> GetDisplayName sp = Some dn)"
  shows "CreateToolTipContent FindAsset obj =
     Inr \<lparr>TopSection =
            (case GetDisplayName obj of
               None \<Rightarrow> GetName obj
             | Some dn \<Rightarrow> if dn = [] then GetName obj else dn),
          BottomSection =
            (case GetSpeakerId obj of
               None \<Rightarrow> []
             | Some SpeakerId \<Rightarrow>
                 [\<lparr>Key = ''Speaker:'', Value = the (GetDisplayName (the (FindAsset SpeakerId))),
                   bImportant = True\<rparr>])
            @ (case GetText obj of
                 None \<Rightarrow> []
               | Some t \<Rightarrow> if t = [] then [] else [\<lparr>Key = ''Text:'', Value = dq @ t @ dq, bImportant = True\<rparr>])
            @ (case GetDisplayName obj of
                 None \<Rightarrow> []
               | Some dn \<Rightarrow>
                   if dn = [] then []
                   else [\<lparr>Key = ''Asset Name:'', Value = GetName obj, bImportant = False\<rparr>])
            @ [\<lparr>Key = ''Class:'', Value = ''('' @ GetClassName obj @ '')'', bImportant = False\<rparr>]\<rparr>"
  using assms
  by (auto simp: CreateToolTipContent_def speaker_rows_def AddToToolTipInfoBox_def Let_def
           split: option.splits)

lemma CreateToolTipContent_example:
  "CreateToolTipContent (\<lambda>SpeakerId. Some (comment_asset\<lparr>GetDisplayName := Some ''Anna''\<rparr>))
     fragment_with_comment_speaker =
   Inr \<lparr>TopSection = ''Greeting'',
        BottomSection =
          [\<lparr>Key = ''Speaker:'', Value = ''Anna'', bImportant = True\<rparr>,
           \<lparr>Key = ''Text:'', Value = dq @ ''Hello'' @ dq, bImportant = True\<rparr>,
           \<lparr>Key = ''Asset Name:'', Value = ''DFr_0003'', bImportant = False\<rparr>,
           \<lparr>Key = ''Class:'', Value = ''(DialogueFragment)'', bImportant = False\<rparr>]\<rparr>"
proof -
  have resolves: "GetSpeakerId fragment_with_comment_speaker = None \<or>
      (\<exists>SpeakerId sp dn. GetSpeakerId fragment_with_comment_speaker = Some SpeakerId
         \<and> (\<lambda>SpeakerId. Some (comment_asset\<lparr>GetDisplayName := Some ''Anna''\<rparr>)) SpeakerId = Some sp
         \<and> GetDisplayName sp = Some dn)"
    by (simp add: fragment_with_comment_speaker_def)
  show ?thesis
    using CreateToolTipContent_content [OF resolves]
    by (simp add: fragment_with_comment_speaker_def)
qed

text \<open>
  C5 says that for every valid articy object the tooltip built has the title and an info
  box that always ends with the class name. On a valid dialogue fragment whose speaker id
  is not the id of any asset, \<open>CreateToolTipContent\<close> dereferences a null pointer and
  builds no content at all.
\<close>

theorem CreateToolTipContent_no_speaker_asset:
  "CreateToolTipContent no_assets fragment_without_speaker_asset = Inl NullPointerDereference"
  by (simp add: CreateToolTipContent_def speaker_rows_def Let_def no_assets_def
        fragment_without_speaker_asset_def)

text \<open>
  C9. The speaker block is not safe: for every object with a speaker interface,
  \<open>CreateToolTipContent\<close> dereferences a null pointer when no asset is found for the
  speaker id, and when the asset found has no display name interface.
\<close>

theorem CreateToolTipContent_null_speaker:
  "CreateToolTipContent (\<lambda>SpeakerId. None) (obj\<lparr>GetSpeakerId := Some i\<rparr>) = Inl NullPointerDereference
   \<and> CreateToolTipContent (\<lambda>SpeakerId. Some (sp\<lparr>GetDisplayName := None\<rparr>)) (obj\<lparr>GetSpeakerId := Some i\<rparr>)
       = Inl NullPointerDereference
   \<and> CreateToolTipContent only_comment_asset fragment_with_comment_speaker = Inl NullPointerDereference"
  by (simp add: CreateToolTipContent_def speaker_rows_def Let_def only_comment_asset_def
        fragment_with_comment_speaker_def comment_asset_def)

end
